theory Spec2Isabelle
  imports Complex_Main "HOL-Library.AList"
begin

section \<open>Data of the quiz application (src/unnamed/part\_000)\<close>

text \<open>
  The Firestore-backed \<open>App\<close> component keeps its state in React state variables and in
  Firestore documents. Each handler of the component is a function from the state (and
  its arguments) to the new state. JavaScript numbers that only ever hold counters are
  \<open>nat\<close>, the others are \<open>int\<close> (all values stay far below \<open>2^53\<close>, where the
  doubles are exact). A JavaScript object used as a dictionary is an association list
  with distinct keys, read with \<open>map_of\<close> and written with \<open>AList.update\<close>.
\<close>

subsection \<open>The quiz definition\<close>

text \<open>One element of \<open>QUIZ_DATA.questions\<close>: \<open>{ id, text, options, correct }\<close>.\<close>

record question =
  q_id :: nat
  q_text :: string
  q_options :: "string list"
  q_correct :: string

text \<open>The constant \<open>QUIZ_DATA\<close>; the handlers below take it as their first argument.\<close>

record quiz_data =
  quiz_id :: string
  quiz_name :: string
  totalQuestions :: nat
  timeLimitSeconds :: int
  pointsPerQuestion :: int
  totalPoints :: int
  expiresAt :: int
  questions :: "question list"

text \<open>
  The literal of the source. \<open>expiresAt\<close> is \<open>Date.now() + 24 h\<close> at load time, so the
  load-time clock is an argument. The last option of question 4 holds the two UTF-8
  bytes of u-umlaut.
\<close>

definition QUIZ_DATA :: "int \<Rightarrow> quiz_data" where
  "QUIZ_DATA now =
     \<lparr> quiz_id = ''quiz-20251008'',
       quiz_name = ''Classic Football Legends Trivia'',
       totalQuestions = 25,
       timeLimitSeconds = 90,
       pointsPerQuestion = 10,
       totalPoints = 250,
       expiresAt = now + 24 * 60 * 60 * 1000,
       questions =
         [ \<lparr> q_id = 1, q_text = ''Which player has won the most Ballon d'Or awards?'',
             q_options = [''Lionel Messi'', ''Cristiano Ronaldo'', ''Michel Platini'', ''Johan Cruyff''],
             q_correct = ''Lionel Messi'' \<rparr>,
           \<lparr> q_id = 2, q_text = ''Which nation won the FIFA World Cup in 2014?'',
             q_options = [''Brazil'', ''Argentina'', ''Germany'', ''Spain''],
             q_correct = ''Germany'' \<rparr>,
           \<lparr> q_id = 3, q_text = ''What club holds the record for the most Champions League titles?'',
             q_options = [''FC Barcelona'', ''AC Milan'', ''Real Madrid'', ''Bayern Munich''],
             q_correct = ''Real Madrid'' \<rparr>,
           \<lparr> q_id = 4, q_text = ''Who is the all-time top scorer for the English Premier League?'',
             q_options = [''Alan Shearer'', ''Wayne Rooney'', ''Thierry Henry'',
                          ''Sergio Ag'' @ [CHR 0xC3, CHR 0xBC] @ ''ero''],
             q_correct = ''Alan Shearer'' \<rparr> ] \<rparr>"

subsection \<open>The session state\<close>

text \<open>The \<open>status\<close> strings \<open>'correct'\<close> and \<open>'incorrect'\<close>.\<close>

datatype answer_status = Correct | Incorrect

text \<open>One value of \<open>questionStatus\<close>: \<open>{ status, selected, correctAnswer }\<close>.\<close>

record question_status =
  status :: answer_status
  selected :: string
  correctAnswer :: string

text \<open>The object held by the state variable \<open>quizState\<close>.\<close>

record quiz_state =
  currentQuestionIndex :: nat
  correctAnswers :: nat
  answeredCount :: nat
  questionStatus :: "(nat \<times> question_status) list"

text \<open>
  The object returned by \<open>calculateResults\<close>. Its field \<open>correctAnswers\<close> is named
  \<open>resultCorrectAnswers\<close> here, since \<open>quiz_state\<close> has a field of that name. The
  source formats \<open>accuracyRate\<close> with \<open>toFixed(1)\<close>; the model keeps the exact
  quotient, without the rounding to one decimal.
\<close>

record results =
  totalAnswered :: nat
  resultCorrectAnswers :: nat
  pointsEarned :: int
  accuracyRate :: rat

subsection \<open>Firestore documents\<close>

text \<open>
  The profile document \<open>artifacts/<appId>/users/<userId>/gameData/profile\<close>. A
  document may lack any of its fields, and \<open>set\<close> with \<open>merge: true\<close> keeps the
  fields it does not write.
\<close>

record profile =
  p_score :: "int option"
  p_leagueScore :: "int option"
  p_globalRank :: "string option"
  p_totalPlayers :: "string option"

text \<open>A document of the collection \<open>artifacts/<appId>/public/data/leagues\<close>.\<close>

record league =
  l_name :: string
  l_description :: string
  l_isPrivate :: bool
  l_ownerId :: string
  l_ownerName :: string
  l_createdAt :: int
  l_members :: nat
  l_points :: int
  l_code :: "string option"
  l_startDate :: int

text \<open>
  The database handle \<open>db\<close>. \<open>online\<close> says whether a request to the backend succeeds;
  when it is false, \<open>runTransaction\<close> and \<open>addDoc\<close> reject and the handler runs its
  \<open>catch\<close> branch. \<open>profiles\<close> maps a user id to that user's profile document;
  \<open>leagues\<close> is the league collection, in order of creation.
\<close>

record firestore =
  online :: bool
  profiles :: "string \<rightharpoonup> profile"
  leagues :: "league list"

subsection \<open>React state of the component\<close>

record user_data =
  name :: string
  username :: string
  avatarUrl :: string
  score :: int
  globalRank :: string
  totalPlayers :: string
  leagueScore :: int

datatype modal = CreateLeague | JoinLeague | Leaderboard | Results | ConfirmJoin string

record app =
  db :: "firestore option"
  userId :: "string option"
  userData :: user_data
  isQuizActive :: bool
  quizState :: "quiz_state option"
  quizResult :: "results option"
  timeRemaining :: int
  showModal :: "modal option"

datatype error = TypeError

section \<open>The handlers\<close>

subsection \<open>Score update\<close>

text \<open>
  \<open>!userId\<close> is true for \<open>null\<close> and for the empty string.
\<close>

definition truthy :: "string option \<Rightarrow> bool" where
  "truthy u = (case u of None \<Rightarrow> False | Some v \<Rightarrow> v \<noteq> [])"

text \<open>
  \<open>docSnap.exists() ? docSnap.data().score || 0 : 0\<close>: a missing document and a missing
  field both read as 0.
\<close>

definition currentScore :: "profile option \<Rightarrow> int" where
  "currentScore d =
     (case d of None \<Rightarrow> 0
      | Some p \<Rightarrow> (case p_score p of None \<Rightarrow> 0 | Some n \<Rightarrow> n))"

text \<open>
  \<open>transaction.set(ref, { score, leagueScore, globalRank }, { merge: true })\<close>: the
  three fields are written, \<open>totalPlayers\<close> is kept when the document exists.
\<close>

definition merge_score :: "profile option \<Rightarrow> int \<Rightarrow> profile" where
  "merge_score d newScore =
     \<lparr> p_score = Some newScore,
       p_leagueScore = Some newScore,
       p_globalRank = Some ''#calculating'',
       p_totalPlayers = (case d of None \<Rightarrow> None | Some p \<Rightarrow> p_totalPlayers p) \<rparr>"

text \<open>
  \<open>updateUserScore(points)\<close>. It returns at once without \<open>db\<close> or \<open>userId\<close>. The
  transaction reads the profile, adds \<open>points\<close> to the score it read and writes the
  sum to \<open>score\<close> and \<open>leagueScore\<close>, with the rank placeholder; the same three values
  go to \<open>userData\<close>. A rejected transaction is caught and changes nothing. The
  function takes no quiz id and reads no record of completed quizzes.
\<close>

definition updateUserScore :: "app \<Rightarrow> int \<Rightarrow> app" where
  "updateUserScore s points =
     (case db s of
        None \<Rightarrow> s
      | Some fs \<Rightarrow>
          (case userId s of
             None \<Rightarrow> s
           | Some uid \<Rightarrow>
               if uid = [] then s
               else if \<not> online fs then s
               else
                 let docSnap = profiles fs uid;
                     newScore = currentScore docSnap + points
                 in s\<lparr> db := Some (fs\<lparr> profiles := (profiles fs)(uid \<mapsto> merge_score docSnap newScore) \<rparr>),
                       userData := (userData s)\<lparr> score := newScore, leagueScore := newScore,
                                                globalRank := ''#calculating'' \<rparr> \<rparr>))"

subsection \<open>Quiz logic\<close>

text \<open>The object that \<open>startQuiz\<close> stores in \<open>quizState\<close>.\<close>

definition initialQuizState :: quiz_state where
  "initialQuizState =
     \<lparr> currentQuestionIndex = 0, correctAnswers = 0, answeredCount = 0, questionStatus = [] \<rparr>"

text \<open>\<open>startQuiz()\<close>.\<close>

definition startQuiz :: "quiz_data \<Rightarrow> app \<Rightarrow> app" where
  "startQuiz qd s =
     s\<lparr> isQuizActive := True,
        quizResult := None,
        timeRemaining := timeLimitSeconds qd,
        quizState := Some initialQuizState \<rparr>"

text \<open>
  \<open>calculateResults(state)\<close>. The function has one parameter: the second argument
  that \<open>endQuiz\<close> passes (\<open>timedOut\<close>) is dropped, and the result has no field for it.
\<close>

definition calculateResults :: "quiz_data \<Rightarrow> quiz_state \<Rightarrow> results" where
  "calculateResults qd state =
     \<lparr> totalAnswered = answeredCount state,
       resultCorrectAnswers = correctAnswers state,
       pointsEarned = int (correctAnswers state) * pointsPerQuestion qd,
       accuracyRate =
         (if answeredCount state > 0
          then (of_nat (correctAnswers state) / of_nat (answeredCount state)) * 100
          else 0) \<rparr>"

text \<open>
  \<open>endQuiz(timedOut = false)\<close>. The function is created anew at every render and reads
  the variable \<open>quizState\<close> of the render that created it. Its second argument here,
  \<open>captured\<close>, is that value: the callers below say which render's \<open>endQuiz\<close> they
  call. \<open>calculateResults(null)\<close> throws a \<open>TypeError\<close>. The function has no test of
  \<open>isQuizActive\<close> or of \<open>quizResult\<close>: every call computes a result and, with
  \<open>db\<close> and \<open>userId\<close> set, calls \<open>updateUserScore\<close>. (\<open>db\<close> and \<open>userId\<close> are
  set while the component mounts and signs in and do not change during a session, so
  the captured and the current values of these two agree.)
\<close>

definition endQuiz :: "quiz_data \<Rightarrow> quiz_state option \<Rightarrow> bool \<Rightarrow> app \<Rightarrow> error + app" where
  "endQuiz qd captured timedOut s =
     (case captured of
        None \<Rightarrow> Inl TypeError
      | Some state \<Rightarrow>
          let finalResults = calculateResults qd state;
              s1 = s\<lparr> isQuizActive := False, quizResult := Some finalResults \<rparr>;
              s2 = (if db s \<noteq> None \<and> truthy (userId s)
                    then updateUserScore s1 (pointsEarned finalResults) else s1)
          in Inr (s2\<lparr> showModal := Some Results \<rparr>))"

text \<open>
  \<open>handleAnswer(selectedOption)\<close>, up to the call of \<open>setTimeout\<close>. It returns without
  effect when \<open>quizState\<close> is \<open>null\<close> or the current question has an entry in
  \<open>questionStatus\<close>. Reading \<open>.id\<close> of \<open>QUIZ_DATA.questions[i]\<close> with \<open>i\<close> out of
  range throws. The option buttons are rendered anew after every change of state, so
  the \<open>handleAnswer\<close> that a click calls reads the current \<open>quizState\<close>. The second
  component of the result is the \<open>quizState\<close> that the scheduled callback has
  captured (the state before this answer), or \<open>None\<close> when nothing was scheduled.
\<close>

definition handleAnswer :: "quiz_data \<Rightarrow> app \<Rightarrow> string \<Rightarrow> error + (app \<times> quiz_state option)" where
  "handleAnswer qd s selectedOption =
     (case quizState s of
        None \<Rightarrow> Inr (s, None)
      | Some qs \<Rightarrow>
          if currentQuestionIndex qs \<ge> length (questions qd) then Inl TypeError
          else
            let currentQ = questions qd ! currentQuestionIndex qs in
            if map_of (questionStatus qs) (q_id currentQ) \<noteq> None then Inr (s, None)
            else
              let isCorrect = (selectedOption = q_correct currentQ);
                  newStatus = AList.update (q_id currentQ)
                                \<lparr> status = (if isCorrect then Correct else Incorrect),
                                  selected = selectedOption,
                                  correctAnswer = q_correct currentQ \<rparr>
                                (questionStatus qs);
                  newCorrectCount = (if isCorrect then correctAnswers qs + 1 else correctAnswers qs);
                  newAnsweredCount = answeredCount qs + 1
              in Inr (s\<lparr> quizState := Some (qs\<lparr> correctAnswers := newCorrectCount,
                                                  answeredCount := newAnsweredCount,
                                                  questionStatus := newStatus \<rparr>) \<rparr>,
                      Some qs))"

text \<open>
  The callback that \<open>handleAnswer\<close> hands to \<open>setTimeout\<close>, run 800 ms later. It reads
  \<open>quizState.currentQuestionIndex\<close> and \<open>endQuiz\<close> from the render in which the answer
  was given (\<open>captured\<close>); only the update of the index works on the state at the
  time of the callback (\<open>prev\<close>, which is not \<open>null\<close>: a callback exists only after
  an answer, and \<open>quizState\<close> is never set back to \<open>null\<close>).
\<close>

definition advance :: "quiz_data \<Rightarrow> quiz_state \<Rightarrow> app \<Rightarrow> error + app" where
  "advance qd captured s =
     (let nextIndex = currentQuestionIndex captured + 1 in
      if nextIndex < length (questions qd)
      then Inr (s\<lparr> quizState :=
                     map_option (\<lambda>prev. prev\<lparr> currentQuestionIndex := nextIndex \<rparr>) (quizState s) \<rparr>)
      else endQuiz qd (Some captured) False s)"

text \<open>
  One run of the interval callback of the timer effect. The effect depends on
  \<open>isQuizActive\<close> only: it is set up in the render that follows \<open>startQuiz\<close>, in which
  \<open>quizState\<close> is the initial state, and it is torn down when \<open>isQuizActive\<close> becomes
  false. So the timer runs while \<open>isQuizActive\<close> holds, and the \<open>endQuiz\<close> it calls
  is the one of that first render. The callback ends the quiz when the remaining time
  is at most 1, and counts down otherwise.
\<close>

definition tick :: "quiz_data \<Rightarrow> app \<Rightarrow> error + app" where
  "tick qd s =
     (if \<not> isQuizActive s then Inr s
      else if timeRemaining s \<le> 1
      then (case endQuiz qd (Some initialQuizState) True s of
              Inl e \<Rightarrow> Inl e
            | Inr s' \<Rightarrow> Inr (s'\<lparr> timeRemaining := 0 \<rparr>))
      else Inr (s\<lparr> timeRemaining := timeRemaining s - 1 \<rparr>))"

subsection \<open>Events of a session\<close>

text \<open>
  A session is the component together with the callbacks that \<open>setTimeout\<close> holds:
  for each one, the \<open>quizState\<close> it has captured. They all have the same delay, so
  they run in the order in which they were scheduled.
\<close>

record session =
  component :: app
  timeouts :: "quiz_state list"

text \<open>
  What can happen to a session: the start button is pressed, an option button is
  pressed, the oldest scheduled callback runs, the interval timer fires. A handler that
  throws before it has set any state leaves the state as it was.
\<close>

datatype event = Start | Answer string | Timeout | Tick

fun step :: "quiz_data \<Rightarrow> session \<Rightarrow> event \<Rightarrow> session" where
  "step qd ss Start = ss\<lparr> component := startQuiz qd (component ss) \<rparr>"
| "step qd ss (Answer selectedOption) =
     (case handleAnswer qd (component ss) selectedOption of
        Inl e \<Rightarrow> ss
      | Inr (s', None) \<Rightarrow> ss\<lparr> component := s' \<rparr>
      | Inr (s', Some captured) \<Rightarrow> \<lparr> component = s', timeouts = timeouts ss @ [captured] \<rparr>)"
| "step qd ss Timeout =
     (case timeouts ss of
        [] \<Rightarrow> ss
      | captured # rest \<Rightarrow>
          (case advance qd captured (component ss) of
             Inl e \<Rightarrow> ss\<lparr> timeouts := rest \<rparr>
           | Inr s' \<Rightarrow> \<lparr> component = s', timeouts = rest \<rparr>))"
| "step qd ss Tick =
     (case tick qd (component ss) of
        Inl e \<Rightarrow> ss
      | Inr s' \<Rightarrow> ss\<lparr> component := s' \<rparr>)"

definition run :: "quiz_data \<Rightarrow> session \<Rightarrow> event list \<Rightarrow> session" where
  "run qd ss evs = foldl (step qd) ss evs"

text \<open>A session right after \<open>startQuiz\<close>, with no callback scheduled.\<close>

definition started :: "quiz_data \<Rightarrow> app \<Rightarrow> session" where
  "started qd s = \<lparr> component = startQuiz qd s, timeouts = [] \<rparr>"

text \<open>
  The phase of the specification, read off the component: a quiz is active while
  \<open>isQuizActive\<close> holds, and finished when it does not and a result is stored.
\<close>

datatype phase = NotStarted | Active | Finished

definition phase_of :: "app \<Rightarrow> phase" where
  "phase_of s =
     (if isQuizActive s then Active
      else if quizResult s \<noteq> None then Finished
      else NotStarted)"

text \<open>The aggregates over the recorded answers.\<close>

definition recordedAnswers :: "quiz_state \<Rightarrow> nat" where
  "recordedAnswers qs = length (questionStatus qs)"

definition recordedCorrect :: "quiz_state \<Rightarrow> nat" where
  "recordedCorrect qs =
     length (filter (\<lambda>(k, e). selected e = correctAnswer e) (questionStatus qs))"

text \<open>An app state for the examples: signed in as \<open>u1\<close>, backend reachable, no documents.\<close>

definition app0 :: app where
  "app0 =
     \<lparr> db = Some \<lparr> online = True, profiles = Map.empty, leagues = [] \<rparr>,
       userId = Some ''u1'',
       userData = \<lparr> name = ''Anonymous Player'', username = ''tg_u1'', avatarUrl = [],
                    score = 0, globalRank = ''#N/A'', totalPlayers = ''...'', leagueScore = 0 \<rparr>,
       isQuizActive = False,
       quizState = None,
       quizResult = None,
       timeRemaining = 90,
       showModal = None \<rparr>"

text \<open>
  The question that \<open>handleAnswer\<close> names \<open>currentQ\<close>. It is used below only where
  the index is in range.
\<close>

definition currentQuestion :: "quiz_data \<Rightarrow> quiz_state \<Rightarrow> question" where
  "currentQuestion qd qs = questions qd ! currentQuestionIndex qs"

text \<open>The example session after one wrong answer to the first question.\<close>

definition answeredOnce :: session where
  "answeredOnce = step (QUIZ_DATA 0) (started (QUIZ_DATA 0) app0) (Answer ''Brazil'')"

subsection \<open>Leagues (src/unnamed/part\_000)\<close>

text \<open>
  \<open>String.prototype.toUpperCase\<close> on the ASCII letters; every other character is kept
  (the codes are drawn from the digits and the lower-case letters).
\<close>

definition toUpperChar :: "char \<Rightarrow> char" where
  "toUpperChar c =
     (case map_of (zip ''abcdefghijklmnopqrstuvwxyz'' ''ABCDEFGHIJKLMNOPQRSTUVWXYZ'') c of
        None \<Rightarrow> c
      | Some u \<Rightarrow> u)"

definition toUpperCase :: "string \<Rightarrow> string" where
  "toUpperCase str = map toUpperChar str"

text \<open>
  \<open>Math.random().toString(36).substring(2, 8).toUpperCase()\<close>. The argument is the
  string \<open>Math.random().toString(36)\<close>, such as \<open>0.4fzyo82mvyr\<close>: the random draw is
  an input of the model. \<open>substring(2, 8)\<close> keeps the characters at positions 2 to 7
  that exist.
\<close>

definition leagueCode :: "string \<Rightarrow> string" where
  "leagueCode rnd = toUpperCase (take 6 (drop 2 rnd))"

text \<open>A call of \<open>showToast(message, type)\<close>.\<close>

type_synonym toast = "string \<times> string"

text \<open>
  \<open>handleCreateLeague(e)\<close>. The form fields, the random draw and the clock are
  arguments (the two readings of \<open>Date.now()\<close> are taken as one). The handler builds
  the document and calls \<open>addDoc\<close> at once: it does not read the collection, so it
  does not compare the code with the codes of the leagues that exist, and it has no
  second attempt.
\<close>

definition handleCreateLeague ::
    "app \<Rightarrow> string \<Rightarrow> string \<Rightarrow> bool \<Rightarrow> string \<Rightarrow> int \<Rightarrow> app \<times> toast" where
  "handleCreateLeague s formName formDescription isPrivate rnd now =
     (case db s of
        None \<Rightarrow> (s, (''Authentication not ready. Please try again.'', ''error''))
      | Some fs \<Rightarrow>
          (case userId s of
             None \<Rightarrow> (s, (''Authentication not ready. Please try again.'', ''error''))
           | Some uid \<Rightarrow>
               if uid = [] then (s, (''Authentication not ready. Please try again.'', ''error''))
               else
                 let leagueData =
                       \<lparr> l_name = formName,
                         l_description = formDescription,
                         l_isPrivate = isPrivate,
                         l_ownerId = uid,
                         l_ownerName = name (userData s),
                         l_createdAt = now,
                         l_members = 1,
                         l_points = 0,
                         l_code = (if isPrivate then Some (leagueCode rnd) else None),
                         l_startDate = now \<rparr>
                 in if online fs
                    then (s\<lparr> db := Some (fs\<lparr> leagues := leagues fs @ [leagueData] \<rparr>),
                             showModal := None \<rparr>,
                          (''League created successfully!'', ''success''))
                    else (s, (''Failed to create league.'', ''error''))))"

text \<open>
  \<open>confirmJoinLeague(leagueId)\<close>: it closes the modal and shows a toast; it writes
  nothing to Firestore.
\<close>

definition confirmJoinLeague :: "app \<Rightarrow> string \<Rightarrow> app \<times> toast" where
  "confirmJoinLeague s leagueId =
     (s\<lparr> showModal := None \<rparr>, (''Successfully joined league! (Simulated)'', ''success''))"

text \<open>The private leagues of the collection, and their codes.\<close>

definition privateCodes :: "app \<Rightarrow> string list" where
  "privateCodes s =
     (case db s of
        None \<Rightarrow> []
      | Some fs \<Rightarrow> List.map_filter l_code (filter l_isPrivate (leagues fs)))"

text \<open>The score stored in the profile document of the signed-in user.\<close>

definition storedScore :: "app \<Rightarrow> int" where
  "storedScore s =
     (case db s of
        None \<Rightarrow> 0
      | Some fs \<Rightarrow> (case userId s of None \<Rightarrow> 0 | Some uid \<Rightarrow> currentScore (profiles fs uid)))"

text \<open>The profile document of the signed-in user.\<close>

definition storedProfile :: "app \<Rightarrow> profile option" where
  "storedProfile s =
     (case db s of
        None \<Rightarrow> None
      | Some fs \<Rightarrow> (case userId s of None \<Rightarrow> None | Some uid \<Rightarrow> profiles fs uid))"

text \<open>
  The handlers can reach the backend: \<open>db\<close> and \<open>userId\<close> are set and requests succeed.
\<close>

definition backendReady :: "app \<Rightarrow> bool" where
  "backendReady s =
     (case db s of None \<Rightarrow> False | Some fs \<Rightarrow> online fs \<and> truthy (userId s))"

section \<open>Joining a league (src/Web/FootyIQApp.jsx)\<close>

text \<open>
  The second \<open>App\<close> component of the repository has its own state and its own
  documents. Two of its handlers are modelled: \<open>handleModalSubmit\<close>, which holds the
  one transaction on league membership, and \<open>handleAnswer\<close>.
\<close>






datatype modal_type = create | join








subsection \<open>Answering a question in the same component\<close>

text \<open>
  An element of \<open>MOCK_QUESTIONS\<close>: \<open>{ questionId, text, options }\<close>. These questions
  have no field for the correct option.
\<close>

record web_question =
  wq_questionId :: nat
  wq_text :: string
  wq_options :: "string list"

text \<open>A number in a template literal: its decimal digits.\<close>

definition digitChar :: "nat \<Rightarrow> char" where
  "digitChar d = ''0123456789'' ! d"

fun decimal :: "nat \<Rightarrow> string" where
  "decimal n = (if n < 10 then [digitChar n] else decimal (n div 10) @ [digitChar (n mod 10)])"

declare decimal.simps [simp del]

text \<open>\<open>Array.from({ length: 25 }, (_, i) => ...)\<close>.\<close>

definition MOCK_QUESTIONS :: "web_question list" where
  "MOCK_QUESTIONS =
     map (\<lambda>i. \<lparr> wq_questionId = i + 1,
                 wq_text = ''Who won the FIFA World Cup in 20'' @ decimal (14 + i mod 4)
                           @ ''? (Mock Question '' @ decimal (i + 1) @ '')'',
                 wq_options = [''Germany'', ''Brazil'', ''Argentina'', ''France''] \<rparr>)
         [0..<25]"

text \<open>An element of \<open>quizAnswers\<close>: \<open>{ questionId, selectedOption }\<close>.\<close>

record web_answer =
  wa_questionId :: nat
  wa_selectedOption :: string

text \<open>The state variable \<open>quizFeedback\<close>: \<open>{ status, correctOption }\<close>.\<close>

record feedback =
  fb_status :: string
  fb_correctOption :: string

text \<open>The state variables of the quiz that \<open>handleAnswer\<close> reads and writes.\<close>

record web_quiz =
  quizCurrentQuestion :: nat
  quizAnswers :: "web_answer list"
  quizFeedback :: "feedback option"

text \<open>
  The literal \<open>0.7\<close>: the double nearest to 7/10, which is
  \<open>3152519739159347 / 2^52\<close>.
\<close>

definition double_0_7 :: rat where
  "double_0_7 = 3152519739159347 / 4503599627370496"

text \<open>
  \<open>handleAnswer(selectedOption)\<close> of this component, up to the call of \<open>setTimeout\<close>.
  The value of \<open>Math.random()\<close> is an argument: a double, so a rational number, and
  the comparison of two doubles is the comparison of their values. The handler
  compares the selected option with nothing: \<open>isCorrect\<close> is the outcome of the draw.
  It shows the feedback and records the question id and the option. Reading
  \<open>.questionId\<close> of \<open>MOCK_QUESTIONS[i]\<close> with \<open>i\<close> out of range throws.
\<close>

definition handleAnswer_web :: "web_quiz \<Rightarrow> rat \<Rightarrow> string \<Rightarrow> error + web_quiz" where
  "handleAnswer_web w draw selectedOption =
     (if quizCurrentQuestion w \<ge> length MOCK_QUESTIONS then Inl TypeError
      else
        let questionId = wq_questionId (MOCK_QUESTIONS ! quizCurrentQuestion w);
            isCorrect = (draw < double_0_7)
        in Inr (w\<lparr> quizFeedback := Some \<lparr> fb_status = (if isCorrect then ''correct'' else ''wrong''),
                                          fb_correctOption = (if isCorrect then selectedOption else ''A'') \<rparr>,
                   quizAnswers := quizAnswers w @
                      [\<lparr> wa_questionId = questionId, wa_selectedOption = selectedOption \<rparr>] \<rparr>))"


section \<open>Notions and examples used in the statements\<close>

text \<open>
  The recorded answers that are marked correct. (\<open>recordedCorrect\<close> above counts those
  whose selected option is the correct one.)
\<close>

definition recordedMarkedCorrect :: "quiz_state \<Rightarrow> nat" where
  "recordedMarkedCorrect qs =
     length (filter (\<lambda>(k, e). status e = Correct) (questionStatus qs))"

text \<open>
  The invariant of \<open>quizState\<close>: the counters are the aggregates of \<open>questionStatus\<close>,
  whose keys are distinct ids of questions of the quiz.
\<close>

definition answersConsistent :: "quiz_data \<Rightarrow> quiz_state \<Rightarrow> bool" where
  "answersConsistent qd qs =
     (answeredCount qs = length (questionStatus qs)
      \<and> correctAnswers qs = recordedCorrect qs
      \<and> correctAnswers qs = recordedMarkedCorrect qs
      \<and> distinct (map fst (questionStatus qs))
      \<and> set (map fst (questionStatus qs)) \<subseteq> q_id ` set (questions qd))"

definition sessionConsistent :: "quiz_data \<Rightarrow> session \<Rightarrow> bool" where
  "sessionConsistent qd ss =
     (case quizState (component ss) of None \<Rightarrow> False | Some qs \<Rightarrow> answersConsistent qd qs)"

text \<open>
  All four questions of \<open>QUIZ_DATA\<close> answered correctly, each answer followed by its
  callback.
\<close>

definition allCorrect :: "event list" where
  "allCorrect =
     [Answer ''Lionel Messi'', Timeout, Answer ''Germany'', Timeout,
      Answer ''Real Madrid'', Timeout, Answer ''Alan Shearer'', Timeout]"

text \<open>
  Question 1 right, question 2 wrong, question 3 right, then the 90 seconds run out.
\<close>

definition threeAnswersThenTimeUp :: "event list" where
  "threeAnswersThenTimeUp =
     [Answer ''Lionel Messi'', Timeout, Answer ''Brazil'', Timeout,
      Answer ''Real Madrid'', Timeout] @ replicate 90 Tick"

text \<open>
  The last question is answered in the last second: the timer fires before the
  callback of that answer runs, and the callback is still scheduled.
\<close>

definition lastAnswerAtTimeUp :: "event list" where
  "lastAnswerAtTimeUp =
     [Answer ''Lionel Messi'', Timeout, Answer ''Germany'', Timeout,
      Answer ''Real Madrid'', Timeout, Answer ''Alan Shearer''] @ replicate 90 Tick"

definition timeUpSession :: session where
  "timeUpSession = run (QUIZ_DATA 0) (started (QUIZ_DATA 0) app0) lastAnswerAtTimeUp"

text \<open>The \<open>quizState\<close> in which the fourth question is shown, three answers recorded.\<close>

definition threeCorrect :: quiz_state where
  "threeCorrect =
     \<lparr> currentQuestionIndex = 3, correctAnswers = 3, answeredCount = 3,
       questionStatus =
         [(1, \<lparr> status = Correct, selected = ''Lionel Messi'', correctAnswer = ''Lionel Messi'' \<rparr>),
          (2, \<lparr> status = Correct, selected = ''Germany'', correctAnswer = ''Germany'' \<rparr>),
          (3, \<lparr> status = Correct, selected = ''Real Madrid'', correctAnswer = ''Real Madrid'' \<rparr>)] \<rparr>"

text \<open>The quiz of the source, started and left alone for 89 seconds.\<close>

definition beforeTimeUp :: app where
  "beforeTimeUp = component (run (QUIZ_DATA 0) (started (QUIZ_DATA 0) app0) (replicate 89 Tick))"

text \<open>The quiz of the second component at its first question.\<close>

definition webQuiz0 :: web_quiz where
  "webQuiz0 = \<lparr> quizCurrentQuestion = 0, quizAnswers = [], quizFeedback = None \<rparr>"

text \<open>Two private leagues created with the same random draw.\<close>

definition sameDraw :: string where
  "sameDraw = ''0.4fzyo82mvyr''"

definition oneLeague :: app where
  "oneLeague = fst (handleCreateLeague app0 ''Reds'' ''first'' True sameDraw 1000)"

definition twoLeagues :: app where
  "twoLeagues = fst (handleCreateLeague oneLeague ''Blues'' ''second'' True sameDraw 2000)"







section \<open>Auxiliary facts\<close>

text \<open>
  What \<open>updateUserScore\<close> does when the backend can be reached, and that it leaves
  the state of the quiz alone.
\<close>

lemma backendReadyE:
  assumes "backendReady s"
  obtains fs uid where "db s = Some fs" "online fs" "userId s = Some uid" "uid \<noteq> []"
  using assms by (auto simp: backendReady_def truthy_def split: option.splits)

lemma updateUserScore_ready:
  assumes "db s = Some fs" "online fs" "userId s = Some uid" "uid \<noteq> []"
  shows "updateUserScore s points =
     s\<lparr> db := Some (fs\<lparr> profiles := (profiles fs)(uid \<mapsto>
                 merge_score (profiles fs uid) (currentScore (profiles fs uid) + points)) \<rparr>),
         userData := (userData s)\<lparr> score := currentScore (profiles fs uid) + points,
                                  leagueScore := currentScore (profiles fs uid) + points,
                                  globalRank := ''#calculating'' \<rparr> \<rparr>"
  using assms by (simp add: updateUserScore_def Let_def)

lemma currentScore_merge_score [simp]: "currentScore (Some (merge_score d n)) = n"
  by (simp add: currentScore_def merge_score_def)

lemma storedScore_updateUserScore:
  assumes "backendReady s"
  shows "storedScore (updateUserScore s points) = storedScore s + points"
    and "backendReady (updateUserScore s points)"
proof -
  from assms obtain fs uid where h: "db s = Some fs" "online fs" "userId s = Some uid" "uid \<noteq> []"
    by (rule backendReadyE)
  show "storedScore (updateUserScore s points) = storedScore s + points"
    by (simp add: updateUserScore_ready [OF h] storedScore_def h)
  show "backendReady (updateUserScore s points)"
    by (simp add: updateUserScore_ready [OF h] backendReady_def truthy_def h)
qed

lemma updateUserScore_not_ready:
  "\<not> backendReady s \<Longrightarrow> updateUserScore s points = s"
  by (auto simp: backendReady_def truthy_def updateUserScore_def split: option.splits)

lemma updateUserScore_session_fields [simp]:
  "quizState (updateUserScore s p) = quizState s"
  "isQuizActive (updateUserScore s p) = isQuizActive s"
  "quizResult (updateUserScore s p) = quizResult s"
  "timeRemaining (updateUserScore s p) = timeRemaining s"
  "showModal (updateUserScore s p) = showModal s"
  "userId (updateUserScore s p) = userId s"
  by (simp_all add: updateUserScore_def Let_def split: option.splits)

lemma backendReady_session_update [simp]:
  "backendReady (s\<lparr> isQuizActive := b \<rparr>) = backendReady s"
  "backendReady (s\<lparr> quizResult := r \<rparr>) = backendReady s"
  "backendReady (s\<lparr> showModal := m \<rparr>) = backendReady s"
  "backendReady (s\<lparr> timeRemaining := n \<rparr>) = backendReady s"
  "backendReady (s\<lparr> quizState := q \<rparr>) = backendReady s"
  by (simp_all add: backendReady_def split: option.splits)

lemma storedScore_session_update [simp]:
  "storedScore (s\<lparr> isQuizActive := b \<rparr>) = storedScore s"
  "storedScore (s\<lparr> quizResult := r \<rparr>) = storedScore s"
  "storedScore (s\<lparr> showModal := m \<rparr>) = storedScore s"
  "storedScore (s\<lparr> timeRemaining := n \<rparr>) = storedScore s"
  "storedScore (s\<lparr> quizState := q \<rparr>) = storedScore s"
  by (simp_all add: storedScore_def split: option.splits)

lemma backendReady_app0: "backendReady app0"
  by (simp add: backendReady_def app0_def truthy_def)

lemma storedScore_app0: "storedScore app0 = 0"
  by (simp add: storedScore_def app0_def currentScore_def)

text \<open>
  What a call of \<open>endQuiz\<close> does, whatever the state it is called in.
\<close>

lemma endQuiz_Some:
  "endQuiz qd (Some c) t s =
     Inr ((if backendReady s \<or> (db s \<noteq> None \<and> truthy (userId s))
           then updateUserScore (s\<lparr> isQuizActive := False, quizResult := Some (calculateResults qd c) \<rparr>)
                  (pointsEarned (calculateResults qd c))
           else s\<lparr> isQuizActive := False, quizResult := Some (calculateResults qd c) \<rparr>)
          \<lparr> showModal := Some Results \<rparr>)"
  by (auto simp: endQuiz_def Let_def backendReady_def split: option.splits)

lemma endQuiz_effect:
  "\<exists>s'. endQuiz qd (Some c) t s = Inr s'
     \<and> isQuizActive s' = False
     \<and> quizResult s' = Some (calculateResults qd c)
     \<and> quizState s' = quizState s
     \<and> timeRemaining s' = timeRemaining s
     \<and> showModal s' = Some Results
     \<and> (backendReady s \<longrightarrow> storedScore s' = storedScore s + pointsEarned (calculateResults qd c))
     \<and> (\<not> backendReady s \<longrightarrow> db s' = db s)"
proof -
  let ?s1 = "s\<lparr> isQuizActive := False, quizResult := Some (calculateResults qd c) \<rparr>"
  have d: "\<not> backendReady s \<Longrightarrow> updateUserScore ?s1 p = ?s1" for p
    by (rule updateUserScore_not_ready) simp
  show ?thesis
    unfolding endQuiz_Some
    by (simp add: storedScore_updateUserScore d)
qed

lemma endQuiz_quizState:
  "endQuiz qd captured t s = Inr s' \<Longrightarrow> quizState s' = quizState s"
  by (cases captured) (auto simp: endQuiz_def Let_def)

lemma calculateResults_initial:
  "calculateResults qd initialQuizState =
     \<lparr> totalAnswered = 0, resultCorrectAnswers = 0, pointsEarned = 0, accuracyRate = 0 \<rparr>"
  by (simp add: calculateResults_def initialQuizState_def)

lemma calculateResults_points:
  "pointsEarned (calculateResults qd state) = int (correctAnswers state) * pointsPerQuestion qd"
  "resultCorrectAnswers (calculateResults qd state) = correctAnswers state"
  "totalAnswered (calculateResults qd state) = answeredCount state"
  by (simp_all add: calculateResults_def)

lemma calculateResults_threeCorrect:
  "calculateResults (QUIZ_DATA 0) threeCorrect =
     \<lparr> totalAnswered = 3, resultCorrectAnswers = 3, pointsEarned = 30, accuracyRate = 100 \<rparr>"
  by (simp add: calculateResults_def threeCorrect_def QUIZ_DATA_def)

text \<open>
  Runs of events; the timer before and at the end of the time limit.
\<close>

lemma run_snoc: "run qd ss (evs @ [e]) = step qd (run qd ss evs) e"
  by (simp add: run_def)

lemma run_Nil [simp]: "run qd ss [] = ss"
  by (simp add: run_def)

lemma run_replicate_Suc: "run qd ss (replicate (Suc k) e) = step qd (run qd ss (replicate k e)) e"
proof -
  have "replicate (Suc k) e = replicate k e @ [e]"
    by (simp add: replicate_append_same)
  then show ?thesis
    by (simp only: run_snoc)
qed

lemma ticks_before_time_up:
  "int k < max 1 (timeLimitSeconds qd) \<Longrightarrow>
     run qd (started qd a) (replicate k Tick) =
       \<lparr> component = (startQuiz qd a)\<lparr> timeRemaining := timeLimitSeconds qd - int k \<rparr>,
         timeouts = [] \<rparr>"
proof (induction k)
  case 0
  then show ?case by (simp add: started_def startQuiz_def)
next
  case (Suc k)
  then have "run qd (started qd a) (replicate k Tick) =
       \<lparr> component = (startQuiz qd a)\<lparr> timeRemaining := timeLimitSeconds qd - int k \<rparr>,
         timeouts = [] \<rparr>"
    by simp
  moreover from Suc.prems have "1 < timeLimitSeconds qd - int k"
    by simp
  ultimately show ?case
    unfolding run_replicate_Suc
    by (simp add: tick_def startQuiz_def algebra_simps)
qed

lemma tick_time_up:
  assumes "isQuizActive s" "timeRemaining s \<le> 1"
  shows "\<exists>s'. tick qd s = Inr s' \<and> phase_of s' = Finished
            \<and> quizResult s' = Some \<lparr> totalAnswered = 0, resultCorrectAnswers = 0,
                                       pointsEarned = 0, accuracyRate = 0 \<rparr>
            \<and> timeRemaining s' = 0"
proof -
  from endQuiz_effect [of qd initialQuizState True s]
  obtain s' where e: "endQuiz qd (Some initialQuizState) True s = Inr s'"
    and r: "isQuizActive s' = False" "quizResult s' = Some (calculateResults qd initialQuizState)"
    by blast
  have "tick qd s = Inr (s'\<lparr> timeRemaining := 0 \<rparr>)"
    using assms by (simp add: tick_def e)
  then show ?thesis
    by (simp add: phase_of_def r calculateResults_initial)
qed

text \<open>
  Every event keeps the counters of \<open>quizState\<close> equal to the aggregates of the
  recorded answers.
\<close>

lemma update_fresh: "map_of al k = None \<Longrightarrow> AList.update k v al = al @ [(k, v)]"
  by (induction al) (auto split: if_splits)

lemma map_of_None_fst: "map_of al k = None \<Longrightarrow> k \<notin> fst ` set al"
  by (simp add: map_of_eq_None_iff)

lemma answersConsistent_initial: "answersConsistent qd initialQuizState"
  by (simp add: answersConsistent_def initialQuizState_def recordedCorrect_def
      recordedMarkedCorrect_def)

lemma answersConsistent_index [simp]:
  "answersConsistent qd (qs\<lparr> currentQuestionIndex := i \<rparr>) = answersConsistent qd qs"
  by (simp add: answersConsistent_def recordedCorrect_def recordedMarkedCorrect_def)

lemma handleAnswer_consistent:
  assumes "quizState s = Some qs" "answersConsistent qd qs"
    and "handleAnswer qd s selectedOption = Inr (s', c)"
  shows "\<exists>qs'. quizState s' = Some qs' \<and> answersConsistent qd qs'"
proof (cases "currentQuestionIndex qs < length (questions qd)
              \<and> map_of (questionStatus qs) (q_id (questions qd ! currentQuestionIndex qs)) = None")
  case False
  with assms show ?thesis
    by (auto simp: handleAnswer_def split: if_splits)
next
  case True
  let ?q = "questions qd ! currentQuestionIndex qs"
  from True have fresh: "q_id ?q \<notin> fst ` set (questionStatus qs)"
    by (simp add: map_of_None_fst)
  from True have mem: "q_id ?q \<in> q_id ` set (questions qd)"
    by simp
  from True assms(1,3) have "quizState s' = Some (qs\<lparr>
        correctAnswers := (if selectedOption = q_correct ?q then correctAnswers qs + 1
                           else correctAnswers qs),
        answeredCount := answeredCount qs + 1,
        questionStatus := questionStatus qs @
          [(q_id ?q, \<lparr> status = (if selectedOption = q_correct ?q then Correct else Incorrect),
                       selected = selectedOption, correctAnswer = q_correct ?q \<rparr>)] \<rparr>)"
    by (auto simp: handleAnswer_def Let_def update_fresh)
  moreover from assms(2) fresh mem
  have "answersConsistent qd (qs\<lparr>
        correctAnswers := (if selectedOption = q_correct ?q then correctAnswers qs + 1
                           else correctAnswers qs),
        answeredCount := answeredCount qs + 1,
        questionStatus := questionStatus qs @
          [(q_id ?q, \<lparr> status = (if selectedOption = q_correct ?q then Correct else Incorrect),
                       selected = selectedOption, correctAnswer = q_correct ?q \<rparr>)] \<rparr>)"
    by (simp add: answersConsistent_def recordedCorrect_def recordedMarkedCorrect_def)
  ultimately show ?thesis by blast
qed

lemma step_consistent:
  assumes "sessionConsistent qd ss"
  shows "sessionConsistent qd (step qd ss ev)"
proof (cases ev)
  case Start
  then show ?thesis
    by (simp add: sessionConsistent_def startQuiz_def answersConsistent_initial)
next
  case (Answer selectedOption)
  from assms obtain qs where qs: "quizState (component ss) = Some qs" "answersConsistent qd qs"
    by (auto simp: sessionConsistent_def split: option.splits)
  show ?thesis
  proof (cases "handleAnswer qd (component ss) selectedOption")
    case (Inl e)
    with Answer assms show ?thesis by simp
  next
    case (Inr r)
    obtain s' c where r: "r = (s', c)" by (cases r)
    from handleAnswer_consistent [OF qs Inr [unfolded r]]
    have "sessionConsistent qd \<lparr> component = s', timeouts = ts \<rparr>" for ts
      by (auto simp: sessionConsistent_def)
    with Answer Inr r show ?thesis
      by (cases c) (auto simp: sessionConsistent_def)
  qed
next
  case Timeout
  show ?thesis
  proof (cases "timeouts ss")
    case Nil
    with Timeout assms show ?thesis by simp
  next
    case (Cons captured rest)
    show ?thesis
    proof (cases "advance qd captured (component ss)")
      case (Inl e)
      with Timeout Cons assms show ?thesis
        by (simp add: sessionConsistent_def)
    next
      case (Inr s')
      from Inr assms have "sessionConsistent qd \<lparr> component = s', timeouts = rest \<rparr>"
        by (auto simp: advance_def Let_def sessionConsistent_def
            split: if_splits option.splits dest: endQuiz_quizState)
      with Timeout Cons Inr show ?thesis by simp
    qed
  qed
next
  case Tick
  show ?thesis
  proof (cases "tick qd (component ss)")
    case (Inl e)
    with Tick assms show ?thesis by simp
  next
    case (Inr s')
    then have "quizState s' = quizState (component ss)"
      by (auto simp: tick_def split: if_splits sum.splits dest: endQuiz_quizState)
    with Tick Inr assms show ?thesis
      by (simp add: sessionConsistent_def)
  qed
qed

lemma run_consistent:
  "sessionConsistent qd ss \<Longrightarrow> sessionConsistent qd (run qd ss evs)"
  unfolding run_def
  by (induction evs arbitrary: ss) (simp_all add: step_consistent)

lemma started_consistent: "sessionConsistent qd (started qd a)"
  by (simp add: sessionConsistent_def started_def startQuiz_def answersConsistent_initial)

lemma answersConsistent_bounds:
  assumes "answersConsistent qd qs"
  shows "correctAnswers qs \<le> answeredCount qs" "answeredCount qs \<le> length (questions qd)"
proof -
  from assms show "correctAnswers qs \<le> answeredCount qs"
    by (simp add: answersConsistent_def recordedCorrect_def)
  from assms have d: "distinct (map fst (questionStatus qs))"
    and sub: "set (map fst (questionStatus qs)) \<subseteq> q_id ` set (questions qd)"
    and len: "answeredCount qs = length (questionStatus qs)"
    by (simp_all add: answersConsistent_def)
  have "length (questionStatus qs) = card (set (map fst (questionStatus qs)))"
    using d by (metis distinct_card length_map)
  also have "\<dots> \<le> card (q_id ` set (questions qd))"
    using sub by (intro card_mono) simp_all
  also have "\<dots> \<le> length (questions qd)"
    by (metis card_image_le card_length le_trans List.finite_set)
  finally show "answeredCount qs \<le> length (questions qd)"
    using len by simp
qed

text \<open>
  The handlers of the leagues when the backend can be reached.
\<close>

lemma toUpperCase_sameDraw: "leagueCode sameDraw = ''4FZYO8''"
  by (simp add: leagueCode_def sameDraw_def toUpperCase_def toUpperChar_def)

lemma handleCreateLeague_ready:
  assumes "db s = Some fs" "online fs" "userId s = Some uid" "uid \<noteq> []"
  shows "handleCreateLeague s formName formDescription isPrivate rnd now =
      (s\<lparr> db := Some (fs\<lparr> leagues := leagues fs @
               [\<lparr> l_name = formName, l_description = formDescription, l_isPrivate = isPrivate,
                  l_ownerId = uid, l_ownerName = name (userData s), l_createdAt = now,
                  l_members = 1, l_points = 0,
                  l_code = (if isPrivate then Some (leagueCode rnd) else None),
                  l_startDate = now \<rparr>] \<rparr>),
          showModal := None \<rparr>,
       (''League created successfully!'', ''success''))"
  using assms by (simp add: handleCreateLeague_def Let_def)

lemma backendReady_oneLeague: "backendReady oneLeague"
  by (simp add: oneLeague_def handleCreateLeague_def app0_def backendReady_def truthy_def)

lemma privateCodes_oneLeague: "privateCodes oneLeague = [''4FZYO8'']"
  by (simp add: oneLeague_def handleCreateLeague_def app0_def privateCodes_def
      List.map_filter_def toUpperCase_sameDraw)






text \<open>
  The handler \<open>handleAnswer\<close> of the second component, and the flag of \<open>endQuiz\<close>.
\<close>

lemma length_MOCK_QUESTIONS: "length MOCK_QUESTIONS = 25"
  by (simp add: MOCK_QUESTIONS_def)

lemma questionId_MOCK_QUESTIONS:
  "i < length MOCK_QUESTIONS \<Longrightarrow> wq_questionId (MOCK_QUESTIONS ! i) = i + 1"
  by (simp add: MOCK_QUESTIONS_def)

lemma handleAnswer_web_in_range:
  assumes "quizCurrentQuestion w < length MOCK_QUESTIONS"
  shows "handleAnswer_web w draw selectedOption =
     Inr (w\<lparr> quizFeedback := Some \<lparr> fb_status = (if draw < double_0_7 then ''correct'' else ''wrong''),
                                      fb_correctOption = (if draw < double_0_7 then selectedOption else ''A'') \<rparr>,
             quizAnswers := quizAnswers w @
                [\<lparr> wa_questionId = quizCurrentQuestion w + 1, wa_selectedOption = selectedOption \<rparr>] \<rparr>)"
  using assms by (simp add: handleAnswer_web_def Let_def questionId_MOCK_QUESTIONS)

lemma endQuiz_flag: "endQuiz qd captured True s = endQuiz qd captured False s"
  by (simp add: endQuiz_def)

section \<open>Score update applied once per quiz\<close>

text \<open>
  C1, as stated: two score updates for the same user and quiz raise the stored score
  by the points once. \<open>updateUserScore\<close> has no quiz id among its arguments and the
  profile has no set of completed quizzes, so the second update adds the points again:
  from an empty profile, two updates of 10 points leave 20.
\<close>

theorem score_update_not_once_counterexample:
  "storedScore (updateUserScore (updateUserScore app0 10) 10) \<noteq> storedScore app0 + 10"
  by (simp add: storedScore_def updateUserScore_def app0_def Let_def currentScore_def merge_score_def)

text \<open>
  C1, amended: with \<open>db\<close> and \<open>userId\<close> set and the backend reachable, every call of
  \<open>updateUserScore p\<close> adds \<open>p\<close> to the stored score, a missing document or field
  counting as 0; two calls add \<open>2 * p\<close>. No call reports that the quiz was already
  completed.
\<close>

theorem score_update_adds_each_time:
  assumes "backendReady s"
  shows "storedScore (updateUserScore s p) = storedScore s + p
       \<and> storedScore (updateUserScore (updateUserScore s p) p) = storedScore s + 2 * p"
  using assms by (simp add: storedScore_updateUserScore)

theorem score_update_adds_each_time_witness:
  "backendReady app0
   \<and> storedScore (updateUserScore app0 10) = 10
   \<and> storedScore (updateUserScore (updateUserScore app0 10) 10) = 20"
  using score_update_adds_each_time [OF backendReady_app0, of 10] backendReady_app0
  by (simp add: storedScore_app0)

section \<open>Answer evaluation\<close>

text \<open>
  C2, as stated: every \<open>submitAnswer\<close> records the answer as correct exactly when the
  selected option is the correct option of the question, and the same state and
  option give the same value. The \<open>handleAnswer\<close> of src/Web/FootyIQApp.jsx, from
  the same state and with the same option, shows the answer as correct for one draw
  of \<open>Math.random()\<close> and as wrong for another.
\<close>

theorem handleAnswer_web_random_counterexample:
  "handleAnswer_web webQuiz0 (1 / 2) ''B'' =
     Inr \<lparr> quizCurrentQuestion = 0,
           quizAnswers = [\<lparr> wa_questionId = 1, wa_selectedOption = ''B'' \<rparr>],
           quizFeedback = Some \<lparr> fb_status = ''correct'', fb_correctOption = ''B'' \<rparr> \<rparr>
   \<and> handleAnswer_web webQuiz0 (9 / 10) ''B'' =
     Inr \<lparr> quizCurrentQuestion = 0,
           quizAnswers = [\<lparr> wa_questionId = 1, wa_selectedOption = ''B'' \<rparr>],
           quizFeedback = Some \<lparr> fb_status = ''wrong'', fb_correctOption = ''A'' \<rparr> \<rparr>"
  by code_simp

text \<open>
  C2, amended. In the component of src/unnamed/part\_000: while the current question
  has no entry in \<open>questionStatus\<close>, \<open>handleAnswer\<close> records the selected option
  for it, marked correct exactly when the option equals the question's \<open>correct\<close>
  field; \<open>correctAnswers\<close> grows by one in that case only, and \<open>answeredCount\<close>
  grows by one; the recorded entry is a function of the state and the option alone.
  In the component of src/Web/FootyIQApp.jsx: \<open>handleAnswer\<close> marks the feedback
  correct exactly when the draw of \<open>Math.random()\<close> is below \<open>0.7\<close>, whatever the
  option, and records the question id and the option without a mark.
\<close>

theorem handleAnswer_records_correct_iff:
  assumes "quizState s = Some qs"
    and "currentQuestionIndex qs < length (questions qd)"
    and "map_of (questionStatus qs) (q_id (currentQuestion qd qs)) = None"
    and "quizCurrentQuestion w < length MOCK_QUESTIONS"
  shows "(\<exists>s' qs' e. handleAnswer qd s selectedOption = Inr (s', Some qs)
           \<and> quizState s' = Some qs'
           \<and> map_of (questionStatus qs') (q_id (currentQuestion qd qs)) = Some e
           \<and> (status e = Correct) = (selectedOption = q_correct (currentQuestion qd qs))
           \<and> selected e = selectedOption
           \<and> correctAnswer e = q_correct (currentQuestion qd qs)
           \<and> correctAnswers qs' =
               (if selectedOption = q_correct (currentQuestion qd qs)
                then correctAnswers qs + 1 else correctAnswers qs)
           \<and> answeredCount qs' = answeredCount qs + 1)
       \<and> (\<exists>w'. handleAnswer_web w draw selectedOption = Inr w'
           \<and> quizFeedback w' =
               Some \<lparr> fb_status = (if draw < double_0_7 then ''correct'' else ''wrong''),
                      fb_correctOption = (if draw < double_0_7 then selectedOption else ''A'') \<rparr>
           \<and> quizAnswers w' = quizAnswers w @
               [\<lparr> wa_questionId = quizCurrentQuestion w + 1, wa_selectedOption = selectedOption \<rparr>]
           \<and> quizCurrentQuestion w' = quizCurrentQuestion w)"
proof -
  have "\<exists>s' qs' e. handleAnswer qd s selectedOption = Inr (s', Some qs)
           \<and> quizState s' = Some qs'
           \<and> map_of (questionStatus qs') (q_id (currentQuestion qd qs)) = Some e
           \<and> (status e = Correct) = (selectedOption = q_correct (currentQuestion qd qs))
           \<and> selected e = selectedOption
           \<and> correctAnswer e = q_correct (currentQuestion qd qs)
           \<and> correctAnswers qs' =
               (if selectedOption = q_correct (currentQuestion qd qs)
                then correctAnswers qs + 1 else correctAnswers qs)
           \<and> answeredCount qs' = answeredCount qs + 1"
    using assms(1-3)
    by (simp add: handleAnswer_def currentQuestion_def Let_def update_conv')
  moreover have "\<exists>w'. handleAnswer_web w draw selectedOption = Inr w'
           \<and> quizFeedback w' =
               Some \<lparr> fb_status = (if draw < double_0_7 then ''correct'' else ''wrong''),
                      fb_correctOption = (if draw < double_0_7 then selectedOption else ''A'') \<rparr>
           \<and> quizAnswers w' = quizAnswers w @
               [\<lparr> wa_questionId = quizCurrentQuestion w + 1, wa_selectedOption = selectedOption \<rparr>]
           \<and> quizCurrentQuestion w' = quizCurrentQuestion w"
    by (simp add: handleAnswer_web_in_range [OF assms(4)])
  ultimately show ?thesis by blast
qed

theorem handleAnswer_records_correct_iff_witness:
  "(\<exists>s' qs' e. handleAnswer (QUIZ_DATA 0) (startQuiz (QUIZ_DATA 0) app0) ''Brazil''
             = Inr (s', Some initialQuizState)
           \<and> quizState s' = Some qs'
           \<and> map_of (questionStatus qs') 1 = Some e
           \<and> status e = Incorrect
           \<and> selected e = ''Brazil''
           \<and> correctAnswer e = ''Lionel Messi''
           \<and> correctAnswers qs' = 0
           \<and> answeredCount qs' = 1)
   \<and> (\<exists>w'. handleAnswer_web webQuiz0 (1 / 2) ''Brazil'' = Inr w'
           \<and> quizFeedback w' = Some \<lparr> fb_status = ''correct'', fb_correctOption = ''Brazil'' \<rparr>
           \<and> quizAnswers w' = [\<lparr> wa_questionId = 1, wa_selectedOption = ''Brazil'' \<rparr>])"
proof -
  have h1: "quizState (startQuiz (QUIZ_DATA 0) app0) = Some initialQuizState"
    by (simp add: startQuiz_def)
  have h2: "currentQuestionIndex initialQuizState < length (questions (QUIZ_DATA 0))"
    by (simp add: initialQuizState_def QUIZ_DATA_def)
  have q: "currentQuestion (QUIZ_DATA 0) initialQuizState = questions (QUIZ_DATA 0) ! 0"
    by (simp add: currentQuestion_def initialQuizState_def)
  have q1: "q_id (questions (QUIZ_DATA 0) ! 0) = 1"
    and q2: "q_correct (questions (QUIZ_DATA 0) ! 0) = ''Lionel Messi''"
    by (simp_all add: QUIZ_DATA_def)
  have h3: "map_of (questionStatus initialQuizState)
              (q_id (currentQuestion (QUIZ_DATA 0) initialQuizState)) = None"
    by (simp add: initialQuizState_def)
  have h4: "quizCurrentQuestion webQuiz0 < length MOCK_QUESTIONS"
    by (simp add: webQuiz0_def length_MOCK_QUESTIONS)
  have c0: "correctAnswers initialQuizState = 0" and a0: "answeredCount initialQuizState = 0"
    by (simp_all add: initialQuizState_def)
  have d: "(1 / 2 :: rat) < double_0_7"
    by (simp add: double_0_7_def)
  have w0: "quizAnswers webQuiz0 = []" "quizCurrentQuestion webQuiz0 = 0"
    by (simp_all add: webQuiz0_def)
  note inst = handleAnswer_records_correct_iff [OF h1 h2 h3 h4, of "''Brazil''" "1 / 2"]
  from inst obtain s' qs' e where
    "handleAnswer (QUIZ_DATA 0) (startQuiz (QUIZ_DATA 0) app0) ''Brazil''
       = Inr (s', Some initialQuizState)"
    "quizState s' = Some qs'"
    "map_of (questionStatus qs') 1 = Some e"
    "(status e = Correct) = (''Brazil'' = ''Lionel Messi'')"
    "selected e = ''Brazil''"
    "correctAnswer e = ''Lionel Messi''"
    "correctAnswers qs' = (if ''Brazil'' = ''Lionel Messi'' then 0 + 1 else 0)"
    "answeredCount qs' = 0 + 1"
    unfolding q q1 q2 c0 a0 by blast
  moreover from this have "status e = Incorrect"
    by (cases "status e") simp_all
  ultimately have first: "\<exists>s' qs' e. handleAnswer (QUIZ_DATA 0) (startQuiz (QUIZ_DATA 0) app0) ''Brazil''
             = Inr (s', Some initialQuizState)
           \<and> quizState s' = Some qs'
           \<and> map_of (questionStatus qs') 1 = Some e
           \<and> status e = Incorrect
           \<and> selected e = ''Brazil''
           \<and> correctAnswer e = ''Lionel Messi''
           \<and> correctAnswers qs' = 0
           \<and> answeredCount qs' = 1"
    by (intro exI [of _ s'] exI [of _ qs'] exI [of _ e]) simp
  from inst obtain w' where
    "handleAnswer_web webQuiz0 (1 / 2) ''Brazil'' = Inr w'"
    "quizFeedback w' =
       Some \<lparr> fb_status = (if 1 / 2 < double_0_7 then ''correct'' else ''wrong''),
              fb_correctOption = (if 1 / 2 < double_0_7 then ''Brazil'' else ''A'') \<rparr>"
    "quizAnswers w' = quizAnswers webQuiz0 @
       [\<lparr> wa_questionId = quizCurrentQuestion webQuiz0 + 1, wa_selectedOption = ''Brazil'' \<rparr>]"
    by blast
  then have second: "\<exists>w'. handleAnswer_web webQuiz0 (1 / 2) ''Brazil'' = Inr w'
           \<and> quizFeedback w' = Some \<lparr> fb_status = ''correct'', fb_correctOption = ''Brazil'' \<rparr>
           \<and> quizAnswers w' = [\<lparr> wa_questionId = 1, wa_selectedOption = ''Brazil'' \<rparr>]"
    using d by (intro exI [of _ w']) (simp add: w0)
  from first second show ?thesis by blast
qed

section \<open>Answering a question twice\<close>

text \<open>
  C3. When the current question already has an entry in \<open>questionStatus\<close>, a further
  call of \<open>handleAnswer\<close>, with any option, returns at its first line: the component
  (and so the recorded answers, both counters and the index) is unchanged, and no
  callback is scheduled.
\<close>

theorem resubmit_is_noop:
  assumes "quizState (component ss) = Some qs"
    and "currentQuestionIndex qs < length (questions qd)"
    and "map_of (questionStatus qs) (q_id (currentQuestion qd qs)) \<noteq> None"
  shows "handleAnswer qd (component ss) selectedOption = Inr (component ss, None)
       \<and> step qd ss (Answer selectedOption) = ss"
  using assms by (auto simp add: handleAnswer_def currentQuestion_def)

theorem resubmit_is_noop_witness:
  "quizState (component answeredOnce) \<noteq> Some initialQuizState
   \<and> step (QUIZ_DATA 0) answeredOnce (Answer ''Lionel Messi'') = answeredOnce"
proof -
  have qs: "quizState (component answeredOnce) =
      Some \<lparr> currentQuestionIndex = 0, correctAnswers = 0, answeredCount = 1,
             questionStatus = [(1, \<lparr> status = Incorrect, selected = ''Brazil'',
                                     correctAnswer = ''Lionel Messi'' \<rparr>)] \<rparr>"
    by (simp add: answeredOnce_def started_def startQuiz_def handleAnswer_def QUIZ_DATA_def
        initialQuizState_def app0_def)
  show ?thesis
    using resubmit_is_noop [OF qs, of "QUIZ_DATA 0" "''Lionel Messi''"] qs
    by (simp add: QUIZ_DATA_def currentQuestion_def initialQuizState_def)
qed

text \<open>
  The same for two calls in a row, from any session.
\<close>

lemma step_answer_twice:
  "step qd (step qd ss (Answer o1)) (Answer o2) = step qd ss (Answer o1)"
  by (auto simp add: handleAnswer_def Let_def update_conv' split: option.splits)

section \<open>Ending a quiz twice\<close>

text \<open>
  C4, as stated: a second call of \<open>endQuiz\<close> on a finished session changes nothing
  and triggers no second score update. In the session below the last question is
  answered in the last second. The timer ends the quiz first, with a result of 0
  points; then the callback of the last answer calls \<open>endQuiz\<close> again: the result is
  replaced and 30 points are added to the stored score.
\<close>

theorem second_endQuiz_counterexample:
  "phase_of (component timeUpSession) = Finished
   \<and> timeouts timeUpSession = [threeCorrect]
   \<and> quizResult (component timeUpSession) =
       Some \<lparr> totalAnswered = 0, resultCorrectAnswers = 0, pointsEarned = 0, accuracyRate = 0 \<rparr>
   \<and> storedScore (component timeUpSession) = 0
   \<and> quizResult (component (step (QUIZ_DATA 0) timeUpSession Timeout)) =
       Some \<lparr> totalAnswered = 3, resultCorrectAnswers = 3, pointsEarned = 30, accuracyRate = 100 \<rparr>
   \<and> storedScore (component (step (QUIZ_DATA 0) timeUpSession Timeout)) = 30"
  by code_simp

text \<open>
  C4, amended: \<open>endQuiz\<close> has no test for a finished session. A second call leaves
  the session finished and \<open>quizState\<close> and the remaining time unchanged, but it
  stores the result computed from the \<open>quizState\<close> that the caller has captured, and,
  when the backend can be reached, it adds the points of that result to the stored
  score once more.
\<close>

theorem second_endQuiz_scores_again:
  assumes "phase_of s = Finished"
  shows "\<exists>s'. endQuiz qd (Some captured) timedOut s = Inr s'
           \<and> phase_of s' = Finished
           \<and> quizState s' = quizState s
           \<and> timeRemaining s' = timeRemaining s
           \<and> quizResult s' = Some (calculateResults qd captured)
           \<and> (if backendReady s
               then storedScore s' = storedScore s + pointsEarned (calculateResults qd captured)
               else db s' = db s)"
  using endQuiz_effect [of qd captured timedOut s] assms
  by (auto simp: phase_of_def)

theorem second_endQuiz_scores_again_witness:
  "phase_of (component timeUpSession) = Finished
   \<and> (\<exists>s'. endQuiz (QUIZ_DATA 0) (Some threeCorrect) False (component timeUpSession) = Inr s'
          \<and> phase_of s' = Finished
          \<and> quizState s' = quizState (component timeUpSession)
          \<and> quizResult s' = Some \<lparr> totalAnswered = 3, resultCorrectAnswers = 3,
                                     pointsEarned = 30, accuracyRate = 100 \<rparr>
          \<and> storedScore s' = 30)"
proof -
  have f: "phase_of (component timeUpSession) = Finished"
    by code_simp
  have b: "backendReady (component timeUpSession)"
    by code_simp
  have z: "storedScore (component timeUpSession) = 0"
    by code_simp
  from second_endQuiz_scores_again [OF f, of "QUIZ_DATA 0" threeCorrect False]
  show ?thesis
    using f b z by (auto simp: calculateResults_threeCorrect)
qed

section \<open>Time running out without an answer\<close>

text \<open>
  C5. The quiz of the source is started and receives no answer. After 89 ticks it is
  active with one second left; the 90th tick ends it, with a result of 0 answers and
  0 points, as the claim says. That tick calls \<open>endQuiz(true)\<close>, but the flag reaches
  nothing: \<open>endQuiz\<close> hands it to \<open>calculateResults\<close>, which has no parameter for
  it, so the state after the call is the one that \<open>endQuiz(false)\<close> gives, and
  neither the result nor the component says that the time ran out.
\<close>

theorem timedOut_flag_dropped:
  "phase_of beforeTimeUp = Active
   \<and> timeRemaining beforeTimeUp = 1
   \<and> tick (QUIZ_DATA 0) beforeTimeUp =
       (case endQuiz (QUIZ_DATA 0) (Some initialQuizState) True beforeTimeUp of
          Inl e \<Rightarrow> Inl e
        | Inr s' \<Rightarrow> Inr (s'\<lparr> timeRemaining := 0 \<rparr>))
   \<and> endQuiz (QUIZ_DATA 0) (Some initialQuizState) True beforeTimeUp
       = endQuiz (QUIZ_DATA 0) (Some initialQuizState) False beforeTimeUp
   \<and> phase_of (component (run (QUIZ_DATA 0) (started (QUIZ_DATA 0) app0) (replicate 90 Tick)))
       = Finished
   \<and> quizResult (component (run (QUIZ_DATA 0) (started (QUIZ_DATA 0) app0) (replicate 90 Tick)))
       = Some \<lparr> totalAnswered = 0, resultCorrectAnswers = 0, pointsEarned = 0, accuracyRate = 0 \<rparr>"
proof -
  have a: "phase_of beforeTimeUp = Active" and t: "timeRemaining beforeTimeUp = 1"
    by code_simp+
  from a have act: "isQuizActive beforeTimeUp"
    by (simp add: phase_of_def split: if_splits)
  have call: "tick (QUIZ_DATA 0) beforeTimeUp =
       (case endQuiz (QUIZ_DATA 0) (Some initialQuizState) True beforeTimeUp of
          Inl e \<Rightarrow> Inl e
        | Inr s' \<Rightarrow> Inr (s'\<lparr> timeRemaining := 0 \<rparr>))"
    using act t by (simp add: tick_def)
  have fin: "phase_of (component (run (QUIZ_DATA 0) (started (QUIZ_DATA 0) app0) (replicate 90 Tick)))
       = Finished
   \<and> quizResult (component (run (QUIZ_DATA 0) (started (QUIZ_DATA 0) app0) (replicate 90 Tick)))
       = Some \<lparr> totalAnswered = 0, resultCorrectAnswers = 0, pointsEarned = 0, accuracyRate = 0 \<rparr>"
    by code_simp
  from a t call fin endQuiz_flag show ?thesis
    by simp
qed

text \<open>
  The count of the ticks and the empty result hold for every time limit of at least
  one second, in a session that starts with no callback scheduled.
\<close>

lemma time_up_after_limit:
  assumes "1 \<le> timeLimitSeconds qd"
  shows "(\<forall>k < nat (timeLimitSeconds qd).
       phase_of (component (run qd (started qd a) (replicate k Tick))) = Active
     \<and> quizResult (component (run qd (started qd a) (replicate k Tick))) = None)
   \<and> phase_of (component (run qd (started qd a)
         (replicate (nat (timeLimitSeconds qd)) Tick))) = Finished
   \<and> quizResult (component (run qd (started qd a)
         (replicate (nat (timeLimitSeconds qd)) Tick))) =
       Some \<lparr> totalAnswered = 0, resultCorrectAnswers = 0, pointsEarned = 0, accuracyRate = 0 \<rparr>"
proof -
  let ?n = "nat (timeLimitSeconds qd)"
  let ?ss = "\<lambda>k. run qd (started qd a) (replicate k Tick)"
  have before: "?ss k = \<lparr> component = (startQuiz qd a)\<lparr> timeRemaining := timeLimitSeconds qd - int k \<rparr>,
         timeouts = [] \<rparr>" if "k < ?n" for k
    using that by (intro ticks_before_time_up) linarith
  have active: "phase_of (component (?ss k)) = Active \<and> quizResult (component (?ss k)) = None"
    if "k < ?n" for k
    by (simp add: before [OF that] phase_of_def startQuiz_def)
  obtain m where n: "?n = Suc m"
    using assms by (cases ?n) auto
  then have m: "m < ?n" by simp
  have act: "isQuizActive (component (?ss m))"
    by (simp add: before [OF m] startQuiz_def)
  have low: "timeRemaining (component (?ss m)) \<le> 1"
    using n by (simp add: before [OF m] startQuiz_def)
  from act low have "\<exists>s'. tick qd (component (?ss m)) = Inr s' \<and> phase_of s' = Finished
            \<and> quizResult s' = Some \<lparr> totalAnswered = 0, resultCorrectAnswers = 0,
                                       pointsEarned = 0, accuracyRate = 0 \<rparr>
            \<and> timeRemaining s' = 0"
    by (rule tick_time_up)
  then have fin: "phase_of (component (?ss (Suc m))) = Finished
      \<and> quizResult (component (?ss (Suc m))) =
          Some \<lparr> totalAnswered = 0, resultCorrectAnswers = 0, pointsEarned = 0, accuracyRate = 0 \<rparr>"
    unfolding run_replicate_Suc by auto
  from active fin n show ?thesis
    by simp
qed

text \<open>
  A callback that an earlier session has left scheduled ends the next session before
  its first tick, with the result of the earlier answers.
\<close>

lemma stale_callback_ends_new_session:
  "timeouts timeUpSession = [threeCorrect]
   \<and> phase_of (component (step (QUIZ_DATA 0) timeUpSession Start)) = Active
   \<and> map_option recordedAnswers (quizState (component (step (QUIZ_DATA 0) timeUpSession Start)))
       = Some 0
   \<and> phase_of (component (run (QUIZ_DATA 0) timeUpSession [Start, Timeout])) = Finished
   \<and> quizResult (component (run (QUIZ_DATA 0) timeUpSession [Start, Timeout])) =
       Some \<lparr> totalAnswered = 3, resultCorrectAnswers = 3, pointsEarned = 30, accuracyRate = 100 \<rparr>"
  by code_simp

section \<open>Points of the result\<close>

text \<open>
  C6. The result that \<open>endQuiz\<close> stores is computed from the \<open>quizState\<close> of the
  render that created the \<open>endQuiz\<close> in use, not from the current one. When the
  quiz of the source is answered correctly throughout, the last call of
  \<open>handleAnswer\<close> schedules the callback that ends the quiz, and that callback sees
  the state before the last answer: four correct answers are recorded, at 10 points
  each, and the result has 3 correct answers and 30 points.
\<close>

theorem last_answer_not_counted:
  "phase_of (component (run (QUIZ_DATA 0) (started (QUIZ_DATA 0) app0) allCorrect)) = Finished
   \<and> map_option recordedCorrect
       (quizState (component (run (QUIZ_DATA 0) (started (QUIZ_DATA 0) app0) allCorrect))) = Some 4
   \<and> pointsPerQuestion (QUIZ_DATA 0) = 10
   \<and> quizResult (component (run (QUIZ_DATA 0) (started (QUIZ_DATA 0) app0) allCorrect)) =
       Some \<lparr> totalAnswered = 3, resultCorrectAnswers = 3, pointsEarned = 30, accuracyRate = 100 \<rparr>"
  by code_simp

text \<open>
  When the time runs out, the \<open>endQuiz\<close> of the timer sees the state in which the
  quiz started: three recorded answers, two of them correct, give a result of 0
  answers and 0 points.
\<close>

lemma time_up_discards_answers:
  "phase_of (component (run (QUIZ_DATA 0) (started (QUIZ_DATA 0) app0) threeAnswersThenTimeUp))
     = Finished
   \<and> map_option recordedAnswers
       (quizState (component (run (QUIZ_DATA 0) (started (QUIZ_DATA 0) app0) threeAnswersThenTimeUp)))
     = Some 3
   \<and> map_option recordedCorrect
       (quizState (component (run (QUIZ_DATA 0) (started (QUIZ_DATA 0) app0) threeAnswersThenTimeUp)))
     = Some 2
   \<and> quizResult (component (run (QUIZ_DATA 0) (started (QUIZ_DATA 0) app0) threeAnswersThenTimeUp)) =
       Some \<lparr> totalAnswered = 0, resultCorrectAnswers = 0, pointsEarned = 0, accuracyRate = 0 \<rparr>"
  by code_simp

section \<open>Counters and recorded answers\<close>

text \<open>
  C7. After \<open>startQuiz\<close> and any sequence of events (answers, callbacks, ticks, and
  further starts), \<open>quizState\<close> satisfies
  \<open>correctAnswers \<le> answeredCount \<le> length questions\<close>; \<open>answeredCount\<close> is the
  number of recorded answers, and \<open>correctAnswers\<close> is the number of recorded answers
  that are marked correct, which is the number of those whose selected option is the
  correct one.
\<close>

theorem counters_agree_with_answers:
  "\<exists>qs. quizState (component (run qd (started qd a) evs)) = Some qs
       \<and> correctAnswers qs \<le> answeredCount qs
       \<and> answeredCount qs \<le> length (questions qd)
       \<and> answeredCount qs = recordedAnswers qs
       \<and> correctAnswers qs = recordedMarkedCorrect qs
       \<and> correctAnswers qs = recordedCorrect qs"
proof -
  have "sessionConsistent qd (run qd (started qd a) evs)"
    by (intro run_consistent started_consistent)
  then obtain qs where qs: "quizState (component (run qd (started qd a) evs)) = Some qs"
    and c: "answersConsistent qd qs"
    by (auto simp: sessionConsistent_def split: option.splits)
  from c answersConsistent_bounds [OF c] qs show ?thesis
    by (simp add: answersConsistent_def recordedAnswers_def)
qed

theorem counters_agree_with_answers_witness:
  "\<exists>qs. quizState (component (run (QUIZ_DATA 0) (started (QUIZ_DATA 0) app0) allCorrect)) = Some qs
       \<and> correctAnswers qs \<le> answeredCount qs
       \<and> answeredCount qs \<le> 4
       \<and> answeredCount qs = recordedAnswers qs
       \<and> correctAnswers qs = recordedCorrect qs"
proof -
  have l: "length (questions (QUIZ_DATA 0)) = 4"
    by (simp add: QUIZ_DATA_def)
  from counters_agree_with_answers [of "QUIZ_DATA 0" app0 allCorrect]
  show ?thesis
    unfolding l by blast
qed

section \<open>Join codes of private leagues\<close>

text \<open>
  C8, as stated: no two private leagues share a join code. Two leagues created with
  the same random draw both get the code \<open>4FZYO8\<close>.
\<close>

theorem join_code_shared_counterexample:
  "\<not> distinct (privateCodes twoLeagues)"
  by (simp add: twoLeagues_def oneLeague_def handleCreateLeague_def app0_def privateCodes_def
      List.map_filter_def toUpperCase_sameDraw)

text \<open>
  C8, amended: with the backend reachable, \<open>handleCreateLeague\<close> always succeeds. For
  a private league it appends one league whose code is the upper-cased slice of the
  random draw, whatever codes exist already; it makes no second attempt and has no
  outcome for exhausted codes.
\<close>

theorem create_league_without_code_check:
  assumes "backendReady s"
  shows "\<exists>s'. handleCreateLeague s formName formDescription isPrivate rnd now =
                 (s', (''League created successfully!'', ''success''))
           \<and> privateCodes s' = privateCodes s @ (if isPrivate then [leagueCode rnd] else [])"
proof -
  from assms obtain fs uid where h: "db s = Some fs" "online fs" "userId s = Some uid" "uid \<noteq> []"
    by (rule backendReadyE)
  show ?thesis
    by (simp add: handleCreateLeague_ready [OF h] privateCodes_def h List.map_filter_def)
qed

theorem create_league_without_code_check_witness:
  "backendReady oneLeague
   \<and> privateCodes oneLeague = [''4FZYO8'']
   \<and> snd (handleCreateLeague oneLeague ''Blues'' ''second'' True sameDraw 2000)
       = (''League created successfully!'', ''success'')
   \<and> privateCodes (fst (handleCreateLeague oneLeague ''Blues'' ''second'' True sameDraw 2000))
       = [''4FZYO8'', ''4FZYO8'']"
  using create_league_without_code_check
    [OF backendReady_oneLeague, of "''Blues''" "''second''" True sameDraw 2000]
    backendReady_oneLeague
  by (auto simp: privateCodes_oneLeague toUpperCase_sameDraw)

section \<open>Joining a league\<close>




section \<open>League score and rank after a score update\<close>

text \<open>
  C10. With \<open>db\<close> and \<open>userId\<close> set and the backend reachable, \<open>updateUserScore\<close>
  writes the new total to \<open>score\<close> and to \<open>leagueScore\<close> of the profile and sets
  \<open>globalRank\<close> to the placeholder \<open>#calculating\<close>; the same values go to
  \<open>userData\<close>.
\<close>

theorem score_update_mirrors_leagueScore:
  assumes "backendReady s"
  shows "\<exists>d. storedProfile (updateUserScore s points) = Some d
           \<and> p_score d = Some (storedScore s + points)
           \<and> p_leagueScore d = Some (storedScore s + points)
           \<and> p_globalRank d = Some ''#calculating''
           \<and> leagueScore (userData (updateUserScore s points)) = storedScore s + points
           \<and> globalRank (userData (updateUserScore s points)) = ''#calculating''"
proof -
  from assms obtain fs uid where h: "db s = Some fs" "online fs" "userId s = Some uid" "uid \<noteq> []"
    by (rule backendReadyE)
  show ?thesis
    by (simp add: updateUserScore_ready [OF h] storedProfile_def storedScore_def h merge_score_def)
qed

theorem score_update_mirrors_leagueScore_witness:
  "\<exists>d. storedProfile (updateUserScore app0 30) = Some d
           \<and> p_score d = Some 30
           \<and> p_leagueScore d = Some 30
           \<and> p_globalRank d = Some ''#calculating''
           \<and> leagueScore (userData (updateUserScore app0 30)) = 30
           \<and> globalRank (userData (updateUserScore app0 30)) = ''#calculating''"
  using score_update_mirrors_leagueScore [OF backendReady_app0, of 30]
  by (simp add: storedScore_app0)

end
